theory Spec2Isabelle
  imports Main
begin

section \<open>Values and errors\<close>

text \<open>
  The backend is TypeScript on an object-relational store. A thrown exception or a
  rejected promise is the left summand of a sum type; \<open>new Error(msg)\<close> keeps its
  message. \<open>EntityNotFound\<close> is what \<open>findOneOrFail\<close> rejects with,
  \<open>IllegalArguments\<close> what the password library rejects with when the stored hash is
  not a string, \<open>StoreFailure\<close> any write the store rejects.
\<close>

datatype error =
    Error string
  | EntityNotFound
  | Unauthorized
  | IllegalArguments
  | StoreFailure

datatype AuthType = FULL | TOTP | PASSWORD_RESET

datatype GrantType = NONE | SESSION | API_KEY

datatype OrganizationPermission = READ | WRITE | ADMIN

text \<open>
  JavaScript truthiness of the two kinds of optional value the code tests:
  a number (\<open>undefined\<close> and \<open>0\<close> are falsy) and a string
  (\<open>undefined\<close>, \<open>null\<close> and the empty string are falsy).
\<close>

fun truthy_number :: "nat option \<Rightarrow> bool" where
  "truthy_number None = False"
| "truthy_number (Some n) = (0 < n)"

fun truthy_string :: "string option \<Rightarrow> bool" where
  "truthy_string None = False"
| "truthy_string (Some s) = (s \<noteq> [])"

text \<open>\<open>String(n)\<close> of a non-negative integer: its decimal digits.\<close>

definition digit :: "nat \<Rightarrow> char" where
  "digit d = ''0123456789'' ! d"

function String_of_number :: "nat \<Rightarrow> string" where
  "String_of_number n =
     (if n < 10 then [digit n] else String_of_number (n div 10) @ [digit (n mod 10)])"
  by pat_completeness auto
termination
  by (relation "measure (\<lambda>n. n)") auto

declare String_of_number.simps [simp del]

section \<open>Entities\<close>

text \<open>
  Each entity class is a record of its columns. \<open>User\<close> is in the source; of the
  other entities the source shows the fields the resolvers read and write.
  \<open>grantType\<close> is the one field of \<open>User\<close> that is not a column. The two
  timestamp columns are filled by the store and read by none of the functions below.
\<close>

record user =
  user_id :: nat
  githubID :: "string option"
  user_name :: string
  username :: string
  email :: string
  passwordHash :: "string option"
  totpSecret :: "string option"
  personalOrganization :: nat
  grantType :: GrantType

record organization =
  org_id :: nat
  org_name :: string
  isPersonal :: bool
  org_username :: string

record membership =
  membership_id :: nat
  membership_user :: nat
  membership_organization :: nat
  permission :: OrganizationPermission

record application =
  app_id :: nat
  app_name :: string
  app_description :: string
  app_organization :: nat

record component =
  component_id :: nat
  component_application :: nat
  component_name :: "string option"
  image :: "string option"
  deploymentStrategy :: "string option"

record containerGroup =
  containerGroup_id :: nat
  containerGroup_organization :: nat
  containerGroup_component :: nat
  containerGroup_environment :: nat

record secret =
  secret_id :: nat
  secret_key :: string
  secret_value :: string
  secret_containerGroup :: nat

section \<open>The store\<close>

text \<open>
  The entities persist themselves through an object-relational mapper, an external
  library. A table is the list of its rows; a generated primary key comes from the
  table's counter. Whether the store accepts a write is not decided by the source
  (constraints, validation in the entities' base class, the connection), so it is a
  parameter: \<open>rejects\<close> tells which tables refuse a write. A refused write changes
  nothing and the call rejects with \<open>StoreFailure\<close>. No operation of the source
  opens a transaction, so none is modelled.
\<close>

datatype entity =
    UserE | OrganizationE | MembershipE | ApplicationE | ComponentE | ContainerGroupE | SecretE

record store =
  users :: "user list"
  organizations :: "organization list"
  memberships :: "membership list"
  applications :: "application list"
  components :: "component list"
  containerGroups :: "containerGroup list"
  secrets :: "secret list"
  next_user_id :: nat
  next_organization_id :: nat
  next_membership_id :: nat
  next_secret_id :: nat
  rejects :: "entity \<Rightarrow> bool"

text \<open>\<open>save()\<close> of an entity that was loaded: the row with its key is replaced.\<close>

definition replace_row :: "('a \<Rightarrow> nat) \<Rightarrow> 'a \<Rightarrow> 'a list \<Rightarrow> 'a list" where
  "replace_row key r rows =
     (if find (\<lambda>x. key x = key r) rows = None then rows @ [r]
      else map (\<lambda>x. if key x = key r then r else x) rows)"

text \<open>\<open>Entity.delete(id)\<close>: the rows with that key are removed from that table.\<close>

definition delete_row :: "('a \<Rightarrow> nat) \<Rightarrow> nat \<Rightarrow> 'a list \<Rightarrow> 'a list" where
  "delete_row key i rows = filter (\<lambda>x. key x \<noteq> i) rows"

text \<open>\<open>User.findOne(id)\<close>: a fresh \<open>User\<close> object (its \<open>grantType\<close> is the
  initialiser's \<open>NONE\<close>) filled from the row.\<close>

definition User_findOne :: "store \<Rightarrow> nat \<Rightarrow> user option" where
  "User_findOne st i =
     map_option (\<lambda>u. u\<lparr>grantType := NONE\<rparr>) (find (\<lambda>u. user_id u = i) (users st))"

definition User_save :: "store \<Rightarrow> user \<Rightarrow> error + store" where
  "User_save st u =
     (if rejects st UserE then Inl StoreFailure
      else Inr (st\<lparr>users := replace_row user_id (u\<lparr>grantType := NONE\<rparr>) (users st)\<rparr>))"

text \<open>\<open>save()\<close> of a \<open>new\<close> entity: the store generates the key and returns
  the entity with it.\<close>

definition User_insert :: "store \<Rightarrow> user \<Rightarrow> error + user \<times> store" where
  "User_insert st u =
     (if rejects st UserE then Inl StoreFailure
      else let u' = u\<lparr>user_id := next_user_id st\<rparr>
           in Inr (u', st\<lparr>users := users st @ [u'\<lparr>grantType := NONE\<rparr>],
                            next_user_id := Suc (next_user_id st)\<rparr>))"

definition Organization_insert :: "store \<Rightarrow> organization \<Rightarrow> error + organization \<times> store" where
  "Organization_insert st g =
     (if rejects st OrganizationE then Inl StoreFailure
      else let g' = g\<lparr>org_id := next_organization_id st\<rparr>
           in Inr (g', st\<lparr>organizations := organizations st @ [g'],
                            next_organization_id := Suc (next_organization_id st)\<rparr>))"

definition Membership_insert :: "store \<Rightarrow> membership \<Rightarrow> error + membership \<times> store" where
  "Membership_insert st m =
     (if rejects st MembershipE then Inl StoreFailure
      else let m' = m\<lparr>membership_id := next_membership_id st\<rparr>
           in Inr (m', st\<lparr>memberships := memberships st @ [m'],
                            next_membership_id := Suc (next_membership_id st)\<rparr>))"

section \<open>Sessions and cookies\<close>

record session =
  userID :: "nat option"
  session_type :: "AuthType option"

record cookie =
  cookie_value :: string
  httpOnly :: bool
  signed :: bool

type_synonym cookies = "string \<rightharpoonup> cookie"

definition cookies_set :: "cookies \<Rightarrow> string \<Rightarrow> string \<Rightarrow> bool \<Rightarrow> bool \<Rightarrow> cookies" where
  "cookies_set cs name v http_only is_signed =
     cs(name \<mapsto> \<lparr>cookie_value = v, httpOnly = http_only, signed = is_signed\<rparr>)"

section \<open>User.ts\<close>

definition SALT_ROUNDS :: nat where
  "SALT_ROUNDS = 10"

text \<open>
  The password library (\<open>hash\<close>, \<open>compare\<close>) and the one-time-code library
  (\<open>authenticator.verify\<close>) are outside the repository: the functions below take
  them as parameters \<open>hash\<close>, \<open>compare\<close> and \<open>verify\<close>. \<open>compare\<close> rejects
  when the stored hash is not a string (the column is nullable).
\<close>

definition bcrypt_compare ::
  "(string \<Rightarrow> string \<Rightarrow> bool) \<Rightarrow> string \<Rightarrow> string option \<Rightarrow> error + bool" where
  "bcrypt_compare compare password h =
     (case h of None \<Rightarrow> Inl IllegalArguments | Some hh \<Rightarrow> Inr (compare password hh))"

definition fromSession :: "store \<Rightarrow> session \<Rightarrow> AuthType \<Rightarrow> user option" where
  "fromSession st s allowedType =
     (if truthy_number (userID s) \<and> session_type s = Some allowedType
      then (case User_findOne st (the (userID s)) of
              None \<Rightarrow> None
            | Some u \<Rightarrow> Some (u\<lparr>grantType := SESSION\<rparr>))
      else None)"

text \<open>\<open>fromTOTPSession\<close> receives the session object by reference; the model returns
  the session along with the result.\<close>

definition fromTOTPSession ::
  "(string \<Rightarrow> string \<Rightarrow> bool) \<Rightarrow> store \<Rightarrow> session \<Rightarrow> string \<Rightarrow> (error + user) \<times> session" where
  "fromTOTPSession verify st s token =
     (case userID s of
        None \<Rightarrow> (Inl (Error ''No TOTP session currently exists.''), s)
      | Some i \<Rightarrow>
          if i = 0 \<or> session_type s \<noteq> Some TOTP
          then (Inl (Error ''No TOTP session currently exists.''), s)
          else (case User_findOne st i of
                  None \<Rightarrow> (Inl (Error ''No user was found in the current session.''), s)
                | Some u \<Rightarrow>
                    (case totpSecret u of
                       None \<Rightarrow> (Inl (Error ''No user was found in the current session.''), s)
                     | Some sec \<Rightarrow>
                         if sec = []
                         then (Inl (Error ''No user was found in the current session.''), s)
                         else if verify sec token then (Inr u, s)
                         else (Inl (Error ''The TOTP token provided was not valid.''), s))))"

definition removeUserCookie :: "cookies \<Rightarrow> cookies" where
  "removeUserCookie cs = cookies_set cs ''userID'' ''0'' False False"

definition signIn :: "user \<Rightarrow> session \<Rightarrow> cookies \<Rightarrow> AuthType \<Rightarrow> session \<times> cookies" where
  "signIn u s cs t =
     (s\<lparr>userID := Some (user_id u), session_type := Some t\<rparr>,
      if t = FULL then cookies_set cs ''userID'' (String_of_number (user_id u)) False False
      else cs)"

definition setPassword :: "(string \<Rightarrow> nat \<Rightarrow> string) \<Rightarrow> user \<Rightarrow> string \<Rightarrow> user" where
  "setPassword hash u newPassword = u\<lparr>passwordHash := Some (hash newPassword SALT_ROUNDS)\<rparr>"

definition checkPassword ::
  "(string \<Rightarrow> string \<Rightarrow> bool) \<Rightarrow> user \<Rightarrow> string \<Rightarrow> error + bool" where
  "checkPassword compare u password = bcrypt_compare compare password (passwordHash u)"

text \<open>\<open>disableTOTP\<close> mutates \<open>this\<close> and may persist it: the model returns the
  result, the object and the store.\<close>

definition disableTOTP ::
  "(string \<Rightarrow> string \<Rightarrow> bool) \<Rightarrow> store \<Rightarrow> user \<Rightarrow> string \<Rightarrow> (error + unit) \<times> user \<times> store" where
  "disableTOTP compare st u password =
     (if truthy_string (totpSecret u)
      then (case bcrypt_compare compare password (passwordHash u) of
              Inl e \<Rightarrow> (Inl e, u, st)
            | Inr passwordValid \<Rightarrow>
                if passwordValid
                then (let u' = u\<lparr>totpSecret := None\<rparr>
                      in case User_save st u' of
                           Inl e \<Rightarrow> (Inl e, u', st)
                         | Inr st' \<Rightarrow> (Inr (), u', st'))
                else (Inl (Error ''Password is not valid!''), u, st))
      else (Inr (), u, st))"

record signUpInput =
  in_username :: string
  in_name :: string
  in_email :: string
  in_password :: "string option"
  in_githubID :: "string option"

definition signUp ::
  "(string \<Rightarrow> nat \<Rightarrow> string) \<Rightarrow> store \<Rightarrow> session \<Rightarrow> cookies \<Rightarrow> signUpInput
     \<Rightarrow> (error + unit) \<times> store \<times> session \<times> cookies" where
  "signUp hash st s cs inp =
     (case Organization_insert st
             \<lparr>org_id = 0, org_name = ''Personal'', isPersonal = True,
              org_username = in_username inp\<rparr> of
        Inl e \<Rightarrow> (Inl e, st, s, cs)
      | Inr (org, st1) \<Rightarrow>
          (let u0 = \<lparr>user_id = 0, githubID = in_githubID inp, user_name = in_name inp,
                     username = in_username inp, email = in_email inp, passwordHash = None,
                     totpSecret = None, personalOrganization = org_id org, grantType = NONE\<rparr>;
               u1 = (if truthy_string (in_password inp)
                     then setPassword hash u0 (the (in_password inp)) else u0)
           in case User_insert st1 u1 of
                Inl e \<Rightarrow> (Inl e, st1, s, cs)
              | Inr (u, st2) \<Rightarrow>
                  (case Membership_insert st2
                          \<lparr>membership_id = 0, membership_user = user_id u,
                           membership_organization = org_id org, permission = ADMIN\<rparr> of
                     Inl e \<Rightarrow> (Inl e, st2, s, cs)
                   | Inr (m, st3) \<Rightarrow>
                       (let (s', cs') = signIn u s cs FULL in (Inr (), st3, s', cs')))))"

section \<open>ApplicationMutationsResolver.ts\<close>

subsection \<open>Store operations of the resolvers\<close>

definition Application_findOneOrFail :: "store \<Rightarrow> nat \<Rightarrow> error + application" where
  "Application_findOneOrFail st i =
     (case find (\<lambda>a. app_id a = i) (applications st) of
        None \<Rightarrow> Inl EntityNotFound
      | Some a \<Rightarrow> Inr a)"

definition Application_delete :: "store \<Rightarrow> nat \<Rightarrow> error + store" where
  "Application_delete st i =
     (if rejects st ApplicationE then Inl StoreFailure
      else Inr (st\<lparr>applications := delete_row app_id i (applications st)\<rparr>))"

definition Application_save :: "store \<Rightarrow> application \<Rightarrow> error + store" where
  "Application_save st a =
     (if rejects st ApplicationE then Inl StoreFailure
      else Inr (st\<lparr>applications := replace_row app_id a (applications st)\<rparr>))"

text \<open>
  Modelled from the spec: \<open>Component.findByApplicationAndId\<close> (the \<open>Component\<close>
  entity is not in the source tree), as the lookup \<open>createContainerGroup\<close> writes
  out: by id and owning application, rejecting when there is none.
\<close>

definition Component_findByApplicationAndId ::
  "store \<Rightarrow> application \<Rightarrow> nat \<Rightarrow> error + component" where
  "Component_findByApplicationAndId st a i =
     (case find (\<lambda>c. component_id c = i \<and> component_application c = app_id a) (components st) of
        None \<Rightarrow> Inl EntityNotFound
      | Some c \<Rightarrow> Inr c)"

definition Component_save :: "store \<Rightarrow> component \<Rightarrow> error + store" where
  "Component_save st c =
     (if rejects st ComponentE then Inl StoreFailure
      else Inr (st\<lparr>components := replace_row component_id c (components st)\<rparr>))"

definition ContainerGroup_findOneOrFail :: "store \<Rightarrow> nat \<Rightarrow> error + containerGroup" where
  "ContainerGroup_findOneOrFail st i =
     (case find (\<lambda>g. containerGroup_id g = i) (containerGroups st) of
        None \<Rightarrow> Inl EntityNotFound
      | Some g \<Rightarrow> Inr g)"

text \<open>\<open>Secret.findOneOrFail({ where: { id, containerGroup: { id: containerGroupID } } })\<close>\<close>

definition Secret_findOneOrFail :: "store \<Rightarrow> nat \<Rightarrow> nat \<Rightarrow> error + secret" where
  "Secret_findOneOrFail st i containerGroupID =
     (case find (\<lambda>x. secret_id x = i \<and> secret_containerGroup x = containerGroupID) (secrets st) of
        None \<Rightarrow> Inl EntityNotFound
      | Some x \<Rightarrow> Inr x)"

definition Secret_insert :: "store \<Rightarrow> secret \<Rightarrow> error + secret \<times> store" where
  "Secret_insert st x =
     (if rejects st SecretE then Inl StoreFailure
      else let x' = x\<lparr>secret_id := next_secret_id st\<rparr>
           in Inr (x', st\<lparr>secrets := secrets st @ [x'],
                            next_secret_id := Suc (next_secret_id st)\<rparr>))"

definition Secret_save :: "store \<Rightarrow> secret \<Rightarrow> error + store" where
  "Secret_save st x =
     (if rejects st SecretE then Inl StoreFailure
      else Inr (st\<lparr>secrets := replace_row secret_id x (secrets st)\<rparr>))"

definition Secret_delete :: "store \<Rightarrow> nat \<Rightarrow> error + store" where
  "Secret_delete st i =
     (if rejects st SecretE then Inl StoreFailure
      else Inr (st\<lparr>secrets := delete_row secret_id i (secrets st)\<rparr>))"

subsection \<open>The permission check\<close>

text \<open>
  Modelled from the spec: \<open>Application.userHasPermission\<close> (the \<open>Application\<close>
  and \<open>OrganizationMembership\<close> entities are not in the source tree). The levels are
  ordered \<open>read < write < admin\<close>; the check looks up the membership of the identity
  on the organization that owns the application; with no membership the target is not
  found, with a lower level than required the caller is unauthorized.
\<close>

fun level :: "OrganizationPermission \<Rightarrow> nat" where
  "level READ = 1"
| "level WRITE = 2"
| "level ADMIN = 3"

definition userHasPermission ::
  "store \<Rightarrow> application \<Rightarrow> user \<Rightarrow> OrganizationPermission \<Rightarrow> error + unit" where
  "userHasPermission st a u required =
     (case find (\<lambda>m. membership_user m = user_id u \<and>
                       membership_organization m = app_organization a) (memberships st) of
        None \<Rightarrow> Inl EntityNotFound
      | Some m \<Rightarrow> if level required \<le> level (permission m) then Inr () else Inl Unauthorized)"

subsection \<open>The mutations\<close>

record ApplicationMutations =
  application :: application

text \<open>An input field of a mutation: left out, \<open>null\<close>, or a value.\<close>

datatype 'a field = Omitted | Null | Given 'a

record ApplicationInput =
  ai_name :: "string field"
  ai_description :: "string field"

record ComponentInput =
  ci_name :: "string field"
  ci_image :: "string field"
  ci_deploymentStrategy :: "string field"

text \<open>\<open>'name' in componentInput\<close> holds for a field that is present, whatever its
  value: the value, \<open>null\<close> included, is assigned.\<close>

fun assign_if_present :: "string field \<Rightarrow> string option \<Rightarrow> string option" where
  "assign_if_present Omitted old = old"
| "assign_if_present Null old = None"
| "assign_if_present (Given v) old = Some v"

text \<open>\<open>typeof x !== 'undefined' && x !== null\<close>\<close>

fun assign_if_defined :: "string field \<Rightarrow> string \<Rightarrow> string" where
  "assign_if_defined (Given v) old = v"
| "assign_if_defined Omitted old = old"
| "assign_if_defined Null old = old"

definition ApplicationMutationsResolver_application ::
  "store \<Rightarrow> user \<Rightarrow> nat \<Rightarrow> error + ApplicationMutations" where
  "ApplicationMutationsResolver_application st u i =
     (case Application_findOneOrFail st i of
        Inl e \<Rightarrow> Inl e
      | Inr a \<Rightarrow>
          (case userHasPermission st a u WRITE of
             Inl e \<Rightarrow> Inl e
           | Inr _ \<Rightarrow> Inr \<lparr>application = a\<rparr>))"

definition delete :: "store \<Rightarrow> ApplicationMutations \<Rightarrow> (error + application) \<times> store" where
  "delete st m =
     (case Application_delete st (app_id (application m)) of
        Inl e \<Rightarrow> (Inl e, st)
      | Inr st' \<Rightarrow> (Inr (application m), st'))"

definition update ::
  "store \<Rightarrow> ApplicationMutations \<Rightarrow> ApplicationInput \<Rightarrow> (error + application) \<times> store" where
  "update st m applicationInput =
     (let a = application m;
          a1 = a\<lparr>app_name := assign_if_defined (ai_name applicationInput) (app_name a)\<rparr>;
          a2 = a1\<lparr>app_description :=
                    assign_if_defined (ai_description applicationInput) (app_description a1)\<rparr>
      in case Application_save st a2 of
           Inl e \<Rightarrow> (Inl e, st)
         | Inr st' \<Rightarrow> (Inr a2, st'))"

definition updateComponent ::
  "store \<Rightarrow> ApplicationMutations \<Rightarrow> nat \<Rightarrow> ComponentInput \<Rightarrow> (error + component) \<times> store" where
  "updateComponent st m i componentInput =
     (case Component_findByApplicationAndId st (application m) i of
        Inl e \<Rightarrow> (Inl e, st)
      | Inr c \<Rightarrow>
          (let c1 = c\<lparr>component_name :=
                        assign_if_present (ci_name componentInput) (component_name c)\<rparr>;
               c2 = c1\<lparr>image := assign_if_present (ci_image componentInput) (image c1)\<rparr>;
               c3 = c2\<lparr>deploymentStrategy :=
                         assign_if_present (ci_deploymentStrategy componentInput)
                           (deploymentStrategy c2)\<rparr>
           in case Component_save st c3 of
                Inl e \<Rightarrow> (Inl e, st)
              | Inr st' \<Rightarrow> (Inr c3, st')))"

definition addSecret ::
  "store \<Rightarrow> ApplicationMutations \<Rightarrow> nat \<Rightarrow> string \<Rightarrow> string \<Rightarrow> (error + secret) \<times> store" where
  "addSecret st m containerGroupID k v =
     (case ContainerGroup_findOneOrFail st containerGroupID of
        Inl e \<Rightarrow> (Inl e, st)
      | Inr g \<Rightarrow>
          (case Secret_insert st
                  \<lparr>secret_id = 0, secret_key = k, secret_value = v,
                   secret_containerGroup = containerGroup_id g\<rparr> of
             Inl e \<Rightarrow> (Inl e, st)
           | Inr (x, st') \<Rightarrow> (Inr x, st')))"

definition editSecret ::
  "store \<Rightarrow> ApplicationMutations \<Rightarrow> nat \<Rightarrow> nat \<Rightarrow> string \<Rightarrow> string
     \<Rightarrow> (error + secret) \<times> store" where
  "editSecret st m containerGroupID i k v =
     (case Secret_findOneOrFail st i containerGroupID of
        Inl e \<Rightarrow> (Inl e, st)
      | Inr x \<Rightarrow>
          (let x' = x\<lparr>secret_key := k, secret_value := v\<rparr>
           in case Secret_save st x' of
                Inl e \<Rightarrow> (Inl e, st)
              | Inr st' \<Rightarrow> (Inr x', st')))"

definition deleteSecret ::
  "store \<Rightarrow> ApplicationMutations \<Rightarrow> nat \<Rightarrow> nat \<Rightarrow> (error + secret) \<times> store" where
  "deleteSecret st m containerGroupID i =
     (case Secret_findOneOrFail st i containerGroupID of
        Inl e \<Rightarrow> (Inl e, st)
      | Inr x \<Rightarrow>
          (case Secret_delete st (secret_id x) of
             Inl e \<Rightarrow> (Inl e, st)
           | Inr st' \<Rightarrow> (Inr x, st')))"

text \<open>
  A nested mutation \<open>application(id: i) { addSecret(...) }\<close>: the field
  \<open>addSecret\<close> is resolved on the object the gate \<open>application\<close> returns, and
  not at all when the gate rejects.
\<close>

definition application_addSecret ::
  "store \<Rightarrow> user \<Rightarrow> nat \<Rightarrow> nat \<Rightarrow> string \<Rightarrow> string \<Rightarrow> (error + secret) \<times> store" where
  "application_addSecret st u i containerGroupID k v =
     (case ApplicationMutationsResolver_application st u i of
        Inl e \<Rightarrow> (Inl e, st)
      | Inr m \<Rightarrow> addSecret st m containerGroupID k v)"

section \<open>A scenario\<close>

text \<open>
  Two identities, each the admin of an organization of their own. Alice's organization
  owns the application \<open>web\<close> with one component, one container group and one
  secret; Bob's owns the application \<open>blog\<close> with one component and one
  container group, which holds no secret.
\<close>

definition alice :: user where
  "alice = \<lparr>user_id = 1, githubID = None, user_name = ''Alice'', username = ''alice'',
            email = ''alice@example.com'', passwordHash = Some ''hash-of-alice'',
            totpSecret = Some ''JBSWY3DPEHPK3PXP'', personalOrganization = 1,
            grantType = NONE\<rparr>"

definition bob :: user where
  "bob = \<lparr>user_id = 2, githubID = None, user_name = ''Bob'', username = ''bob'',
          email = ''bob@example.com'', passwordHash = Some ''hash-of-bob'',
          totpSecret = None, personalOrganization = 2, grantType = NONE\<rparr>"

definition web :: application where
  "web = \<lparr>app_id = 1, app_name = ''web'', app_description = ''the site'',
          app_organization = 1\<rparr>"

definition blog :: application where
  "blog = \<lparr>app_id = 2, app_name = ''blog'', app_description = ''notes'',
           app_organization = 2\<rparr>"

definition api :: component where
  "api = \<lparr>component_id = 1, component_application = 1, component_name = Some ''api'',
          image = Some ''repo/api:1'', deploymentStrategy = Some ''RECREATE''\<rparr>"

definition api_group :: containerGroup where
  "api_group = \<lparr>containerGroup_id = 1, containerGroup_organization = 1,
                containerGroup_component = 1, containerGroup_environment = 1\<rparr>"

definition posts :: component where
  "posts = \<lparr>component_id = 2, component_application = 2, component_name = Some ''posts'',
            image = Some ''repo/posts:1'', deploymentStrategy = Some ''RECREATE''\<rparr>"

definition posts_group :: containerGroup where
  "posts_group = \<lparr>containerGroup_id = 2, containerGroup_organization = 2,
                  containerGroup_component = 2, containerGroup_environment = 2\<rparr>"

definition db_url :: secret where
  "db_url = \<lparr>secret_id = 1, secret_key = ''DB_URL'', secret_value = ''postgres://db'',
             secret_containerGroup = 1\<rparr>"

definition demo :: store where
  "demo =
     \<lparr>users = [alice, bob],
      organizations =
        [\<lparr>org_id = 1, org_name = ''Personal'', isPersonal = True, org_username = ''alice''\<rparr>,
         \<lparr>org_id = 2, org_name = ''Personal'', isPersonal = True, org_username = ''bob''\<rparr>],
      memberships =
        [\<lparr>membership_id = 1, membership_user = 1, membership_organization = 1,
          permission = ADMIN\<rparr>,
         \<lparr>membership_id = 2, membership_user = 2, membership_organization = 2,
          permission = ADMIN\<rparr>],
      applications = [web, blog],
      components = [api, posts],
      containerGroups = [api_group, posts_group],
      secrets = [db_url],
      next_user_id = 3, next_organization_id = 3, next_membership_id = 3,
      next_secret_id = 2,
      rejects = (\<lambda>e. False)\<rparr>"

text \<open>A one-time-code check that accepts the code \<open>123456\<close> and no other, and a
  password check that accepts the password whose hash is \<open>hash-of-\<close> followed by it.\<close>

definition accepts_123456 :: "string \<Rightarrow> string \<Rightarrow> bool" where
  "accepts_123456 sec token = (token = ''123456'')"

definition prefix_compare :: "string \<Rightarrow> string \<Rightarrow> bool" where
  "prefix_compare password h = (h = ''hash-of-'' @ password)"

definition prefix_hash :: "string \<Rightarrow> nat \<Rightarrow> string" where
  "prefix_hash password rounds = ''hash-of-'' @ password"

definition pending :: session where
  "pending = \<lparr>userID = Some 1, session_type = Some TOTP\<rparr>"

definition signed_out :: session where
  "signed_out = \<lparr>userID = None, session_type = None\<rparr>"

definition carol_input :: signUpInput where
  "carol_input = \<lparr>in_username = ''carol'', in_name = ''Carol'',
                   in_email = ''carol@example.com'', in_password = Some ''carol'',
                   in_githubID = None\<rparr>"

text \<open>The rows a signup of Carol writes into the scenario's store.\<close>

definition carol_org :: organization where
  "carol_org = \<lparr>org_id = 3, org_name = ''Personal'', isPersonal = True,
                org_username = ''carol''\<rparr>"

definition carol :: user where
  "carol = \<lparr>user_id = 3, githubID = None, user_name = ''Carol'', username = ''carol'',
            email = ''carol@example.com'', passwordHash = Some ''hash-of-carol'',
            totpSecret = None, personalOrganization = 3, grantType = NONE\<rparr>"

section \<open>Facts about the store\<close>

lemma find_append_rows:
  "find P (xs @ ys) = (case find P xs of None \<Rightarrow> find P ys | Some x \<Rightarrow> Some x)"
  by (induction xs) auto

lemma find_Some_holds: "find P xs = Some x \<Longrightarrow> P x \<and> x \<in> set xs"
  by (induction xs) (auto split: if_splits)

text \<open>After a save, the row with the saved entity's key is the saved entity.\<close>

lemma find_replace_row:
  "find (\<lambda>x. key x = key r) (replace_row key r rows) = Some r"
proof (cases "find (\<lambda>x. key x = key r) rows")
  case None
  then show ?thesis by (simp add: replace_row_def find_append_rows split: option.splits)
next
  case (Some a)
  have "find (\<lambda>x. key x = key r) (map (\<lambda>x. if key x = key r then r else x) rows) = Some r"
    using Some by (induction rows) (auto split: if_splits)
  with Some show ?thesis by (simp add: replace_row_def)
qed

lemma User_findOne_id: "User_findOne st i = Some u \<Longrightarrow> user_id u = i \<and> grantType u = NONE"
  by (auto simp: User_findOne_def dest: find_Some_holds)

lemma String_of_number_1: "String_of_number (Suc 0) = ''1''"
  by (subst String_of_number.simps) (simp add: digit_def)

section \<open>Resolving an identity from a session\<close>

text \<open>
  Claim C5. \<open>fromSession\<close> resolves an identity only when the session carries a stored
  identity id (a non-zero number) and its phase tag equals the phase the caller demands,
  and the identity it resolves has grant kind \<open>SESSION\<close>. A session whose phase is not
  the demanded one resolves nothing; in particular a \<open>TOTP\<close> session resolves
  nothing for a caller that demands \<open>FULL\<close>. Conversely, a session with a stored id,
  the demanded phase and a matching row does resolve.
\<close>

theorem fromSession_phase:
  "(fromSession st s allowedType = Some u \<longrightarrow>
      (\<exists>i. userID s = Some i \<and> 0 < i \<and> session_type s = Some allowedType \<and>
           user_id u = i \<and> grantType u = SESSION)) \<and>
   (session_type s \<noteq> Some allowedType \<longrightarrow> fromSession st s allowedType = None) \<and>
   (session_type s = Some TOTP \<longrightarrow> fromSession st s FULL = None) \<and>
   (userID s = Some i \<and> 0 < i \<and> session_type s = Some allowedType \<and>
    find (\<lambda>r. user_id r = i) (users st) = Some r \<longrightarrow>
      fromSession st s allowedType = Some (r\<lparr>grantType := SESSION\<rparr>))"
proof -
  have a: "\<exists>i. userID s = Some i \<and> 0 < i \<and> session_type s = Some allowedType \<and>
           user_id u = i \<and> grantType u = SESSION"
    if "fromSession st s allowedType = Some u"
    using that
    by (cases "userID s")
       (auto simp: fromSession_def split: option.splits if_splits dest: User_findOne_id)
  have b: "fromSession st s allowedType = None" if "session_type s \<noteq> Some allowedType"
    using that by (simp add: fromSession_def)
  have c: "fromSession st s FULL = None" if "session_type s = Some TOTP"
    using that by (simp add: fromSession_def)
  have d: "fromSession st s allowedType = Some (r\<lparr>grantType := SESSION\<rparr>)"
    if "userID s = Some i" "0 < i" "session_type s = Some allowedType"
       "find (\<lambda>r. user_id r = i) (users st) = Some r"
    using that by (simp add: fromSession_def User_findOne_def)
  from a b c d show ?thesis by blast
qed

text \<open>In the scenario: Alice's full session resolves for \<open>FULL\<close>; her pending session
  resolves for \<open>TOTP\<close> and not for \<open>FULL\<close>.\<close>

theorem fromSession_phase_witness:
  "fromSession demo \<lparr>userID = Some 1, session_type = Some FULL\<rparr> FULL
     = Some (alice\<lparr>grantType := SESSION\<rparr>) \<and>
   session_type pending = Some TOTP \<and>
   fromSession demo pending FULL = None \<and>
   fromSession demo pending TOTP = Some (alice\<lparr>grantType := SESSION\<rparr>)"
  using fromSession_phase [of demo pending FULL alice 1 alice]
    fromSession_phase [of demo pending TOTP "alice\<lparr>grantType := SESSION\<rparr>" 1 alice]
    fromSession_phase [of demo "\<lparr>userID = Some 1, session_type = Some FULL\<rparr>" FULL
      "alice\<lparr>grantType := SESSION\<rparr>" 1 alice]
  by (simp add: demo_def pending_def alice_def bob_def)

section \<open>Second-factor completion\<close>

text \<open>
  Claim C3, as the code has it. \<open>fromTOTPSession\<close> rejects when the session is not in
  the \<open>TOTP\<close> phase or stores no identity id, when no identity has the stored id, and
  when the identity has no second-factor secret; it rejects a code that does not verify;
  in each of these cases the session is as it was. When the code verifies it returns the
  identity, and the session is still as it was: \<open>fromTOTPSession\<close> never writes to the
  session. The phase becomes \<open>FULL\<close> by the \<open>signIn\<close> of the returned identity.
\<close>

theorem fromTOTPSession_outcomes:
  "(session_type s \<noteq> Some TOTP \<or> \<not> truthy_number (userID s) \<longrightarrow>
      fromTOTPSession verify st s token
        = (Inl (Error ''No TOTP session currently exists.''), s)) \<and>
   (session_type s = Some TOTP \<and> userID s = Some i \<and> 0 < i \<and>
    (\<forall>r \<in> set (users st). user_id r \<noteq> i) \<longrightarrow>
      fromTOTPSession verify st s token
        = (Inl (Error ''No user was found in the current session.''), s)) \<and>
   (session_type s = Some TOTP \<and> userID s = Some i \<and> 0 < i \<and>
    User_findOne st i = Some u \<and> \<not> truthy_string (totpSecret u) \<longrightarrow>
      fromTOTPSession verify st s token
        = (Inl (Error ''No user was found in the current session.''), s)) \<and>
   (session_type s = Some TOTP \<and> userID s = Some i \<and> 0 < i \<and>
    User_findOne st i = Some u \<and> totpSecret u = Some sec \<and> sec \<noteq> [] \<and>
    \<not> verify sec token \<longrightarrow>
      fromTOTPSession verify st s token
        = (Inl (Error ''The TOTP token provided was not valid.''), s)) \<and>
   (session_type s = Some TOTP \<and> userID s = Some i \<and> 0 < i \<and>
    User_findOne st i = Some u \<and> totpSecret u = Some sec \<and> sec \<noteq> [] \<and>
    verify sec token \<longrightarrow>
      fromTOTPSession verify st s token = (Inr u, s) \<and>
      fst (signIn u s cs FULL) = \<lparr>userID = Some (user_id u), session_type = Some FULL\<rparr>)"
proof -
  have none: "(\<forall>r \<in> set (users st). user_id r \<noteq> i) \<Longrightarrow> User_findOne st i = None"
    by (simp add: User_findOne_def find_None_iff)
  show ?thesis
    using none
    by (cases "userID s"; cases "totpSecret u")
       (auto simp: fromTOTPSession_def signIn_def split: option.splits)
qed

text \<open>In the scenario: a signed-out session, a pending session of an identity that does
  not exist, Bob's (he has no secret), and Alice's with a wrong and with the right code.\<close>

theorem fromTOTPSession_outcomes_witness:
  "fromTOTPSession accepts_123456 demo signed_out ''123456''
     = (Inl (Error ''No TOTP session currently exists.''), signed_out) \<and>
   fromTOTPSession accepts_123456 demo \<lparr>userID = Some 7, session_type = Some TOTP\<rparr> ''123456''
     = (Inl (Error ''No user was found in the current session.''),
        \<lparr>userID = Some 7, session_type = Some TOTP\<rparr>) \<and>
   fromTOTPSession accepts_123456 demo \<lparr>userID = Some 2, session_type = Some TOTP\<rparr> ''123456''
     = (Inl (Error ''No user was found in the current session.''),
        \<lparr>userID = Some 2, session_type = Some TOTP\<rparr>) \<and>
   fromTOTPSession accepts_123456 demo pending ''000000''
     = (Inl (Error ''The TOTP token provided was not valid.''), pending) \<and>
   fromTOTPSession accepts_123456 demo pending ''123456'' = (Inr alice, pending) \<and>
   fst (signIn alice pending Map.empty FULL) = \<lparr>userID = Some 1, session_type = Some FULL\<rparr>"
  using
    fromTOTPSession_outcomes [of signed_out accepts_123456 demo "''123456''" 1 alice "''x''" Map.empty]
    fromTOTPSession_outcomes [of "\<lparr>userID = Some 7, session_type = Some TOTP\<rparr>"
      accepts_123456 demo "''123456''" 7 alice "''x''" Map.empty]
    fromTOTPSession_outcomes [of "\<lparr>userID = Some 2, session_type = Some TOTP\<rparr>"
      accepts_123456 demo "''123456''" 2 bob "''x''" Map.empty]
    fromTOTPSession_outcomes [of pending accepts_123456 demo "''000000''" 1 alice
      "''JBSWY3DPEHPK3PXP''" Map.empty]
    fromTOTPSession_outcomes [of pending accepts_123456 demo "''123456''" 1 alice
      "''JBSWY3DPEHPK3PXP''" Map.empty]
  by (simp add: demo_def pending_def signed_out_def alice_def bob_def accepts_123456_def
        User_findOne_def)

text \<open>Against C3 as stated: Alice's pending session and a code that verifies. The call
  returns Alice, and the session's phase is still \<open>TOTP\<close>, not \<open>FULL\<close>.\<close>

theorem fromTOTPSession_keeps_phase:
  "fst (fromTOTPSession accepts_123456 demo pending ''123456'') = Inr alice \<and>
   session_type (snd (fromTOTPSession accepts_123456 demo pending ''123456'')) = Some TOTP"
  by (simp add: fromTOTPSession_def User_findOne_def demo_def pending_def alice_def
        accepts_123456_def)

section \<open>The display cookie\<close>

text \<open>
  Claim C9, as the code has it. A sign-in with phase \<open>FULL\<close> stores the identity id
  and the phase in the session and sets the cookie \<open>userID\<close> to the decimal id with
  \<open>httpOnly: false\<close> and \<open>signed: false\<close>: the cookie is readable by client
  scripts and it is not signed. \<open>removeUserCookie\<close> overwrites it with \<open>0\<close> under
  the same two options.
\<close>

theorem signIn_full_cookie:
  "signIn u s cs FULL =
     (s\<lparr>userID := Some (user_id u), session_type := Some FULL\<rparr>,
      cs(''userID'' \<mapsto> \<lparr>cookie_value = String_of_number (user_id u), httpOnly = False,
                          signed = False\<rparr>)) \<and>
   removeUserCookie cs =
     cs(''userID'' \<mapsto> \<lparr>cookie_value = ''0'', httpOnly = False, signed = False\<rparr>)"
  by (simp add: signIn_def removeUserCookie_def cookies_set_def)

text \<open>Against C9 as stated: the cookie Alice's sign-in sets carries her id and is not
  signed.\<close>

theorem signIn_cookie_unsigned:
  "snd (signIn alice signed_out Map.empty FULL) ''userID''
     = Some \<lparr>cookie_value = ''1'', httpOnly = False, signed = False\<rparr>"
  by (simp add: signIn_def cookies_set_def alice_def String_of_number_1)

section \<open>Disabling the second factor\<close>

text \<open>
  Claim C10. For an identity with no second-factor secret \<open>disableTOTP\<close> returns at
  once: the password is not compared (the result is the same for every \<open>compare\<close> and
  every password) and neither the identity nor the store changes. For an identity with a
  secret, a password that does not match makes it throw \<open>Password is not valid!\<close>
  (and a stored hash that is not a string makes the comparison itself reject), with the
  identity, its secret and the store as they were. A password that matches clears the
  secret and saves the identity: loading it from the store afterwards gives the identity
  with no secret.
\<close>

theorem disableTOTP_cases:
  "(\<not> truthy_string (totpSecret u) \<longrightarrow>
      disableTOTP compare st u password = (Inr (), u, st)) \<and>
   (truthy_string (totpSecret u) \<and> passwordHash u = Some h \<and> \<not> compare password h \<longrightarrow>
      disableTOTP compare st u password = (Inl (Error ''Password is not valid!''), u, st)) \<and>
   (truthy_string (totpSecret u) \<and> passwordHash u = None \<longrightarrow>
      disableTOTP compare st u password = (Inl IllegalArguments, u, st)) \<and>
   (truthy_string (totpSecret u) \<and> passwordHash u = Some h \<and> compare password h \<and>
    \<not> rejects st UserE \<longrightarrow>
      disableTOTP compare st u password
        = (Inr (), u\<lparr>totpSecret := None\<rparr>,
           st\<lparr>users := replace_row user_id (u\<lparr>totpSecret := None, grantType := NONE\<rparr>)
                          (users st)\<rparr>) \<and>
      User_findOne (snd (snd (disableTOTP compare st u password))) (user_id u)
        = Some (u\<lparr>totpSecret := None, grantType := NONE\<rparr>))"
proof -
  have "find (\<lambda>x. user_id x = user_id u)
          (replace_row user_id (u\<lparr>totpSecret := None, grantType := NONE\<rparr>) (users st))
        = Some (u\<lparr>totpSecret := None, grantType := NONE\<rparr>)"
    using find_replace_row [of user_id "u\<lparr>totpSecret := None, grantType := NONE\<rparr>" "users st"]
    by simp
  then show ?thesis
    by (simp add: disableTOTP_def bcrypt_compare_def User_save_def User_findOne_def Let_def)
qed

text \<open>In the scenario: Bob has no secret and a wrong password passes unnoticed; Alice
  has one, and her call fails on a wrong password, fails when her hash is missing, and
  clears the secret on the right password.\<close>

theorem disableTOTP_cases_witness:
  "disableTOTP prefix_compare demo bob ''wrong'' = (Inr (), bob, demo) \<and>
   disableTOTP prefix_compare demo alice ''wrong''
     = (Inl (Error ''Password is not valid!''), alice, demo) \<and>
   disableTOTP prefix_compare demo (alice\<lparr>passwordHash := None\<rparr>) ''alice''
     = (Inl IllegalArguments, alice\<lparr>passwordHash := None\<rparr>, demo) \<and>
   disableTOTP prefix_compare demo alice ''alice''
     = (Inr (), alice\<lparr>totpSecret := None\<rparr>, demo\<lparr>users := [alice\<lparr>totpSecret := None\<rparr>, bob]\<rparr>) \<and>
   User_findOne (demo\<lparr>users := [alice\<lparr>totpSecret := None\<rparr>, bob]\<rparr>) 1
     = Some (alice\<lparr>totpSecret := None\<rparr>)"
  using
    disableTOTP_cases [of bob prefix_compare demo "''wrong''" "''hash-of-bob''"]
    disableTOTP_cases [of alice prefix_compare demo "''wrong''" "''hash-of-alice''"]
    disableTOTP_cases [of "alice\<lparr>passwordHash := None\<rparr>" prefix_compare demo "''alice''" "''x''"]
    disableTOTP_cases [of alice prefix_compare demo "''alice''" "''hash-of-alice''"]
  by (simp add: demo_def alice_def bob_def prefix_compare_def replace_row_def User_findOne_def)

section \<open>Signup\<close>

text \<open>
  Claim C4, as the code has it. \<open>signUp\<close> makes its three writes one after the other
  and opens no transaction. When a write is refused the call rejects, no later write is
  made, nobody is signed in, and the rows written before stay: nothing when the
  organization's write is refused, the new organization when the identity's is, the new
  organization and the new identity when the membership's is. When all three are accepted
  the three rows are there and the session is a full session of the new identity.
\<close>

theorem signUp_writes_in_sequence:
  "(rejects st OrganizationE \<longrightarrow>
      signUp hash st s cs inp = (Inl StoreFailure, st, s, cs)) \<and>
   (\<not> rejects st OrganizationE \<and> rejects st UserE \<longrightarrow>
      (\<exists>st'. signUp hash st s cs inp = (Inl StoreFailure, st', s, cs) \<and>
             organizations st' = organizations st @
               [\<lparr>org_id = next_organization_id st, org_name = ''Personal'', isPersonal = True,
                 org_username = in_username inp\<rparr>] \<and>
             users st' = users st \<and> memberships st' = memberships st)) \<and>
   (\<not> rejects st OrganizationE \<and> \<not> rejects st UserE \<and> rejects st MembershipE \<longrightarrow>
      (\<exists>st' u. signUp hash st s cs inp = (Inl StoreFailure, st', s, cs) \<and>
             organizations st' = organizations st @
               [\<lparr>org_id = next_organization_id st, org_name = ''Personal'', isPersonal = True,
                 org_username = in_username inp\<rparr>] \<and>
             users st' = users st @ [u] \<and> user_id u = next_user_id st \<and>
             username u = in_username inp \<and> email u = in_email inp \<and>
             personalOrganization u = next_organization_id st \<and>
             memberships st' = memberships st)) \<and>
   (\<not> rejects st OrganizationE \<and> \<not> rejects st UserE \<and> \<not> rejects st MembershipE \<longrightarrow>
      (\<exists>st' u cs'. signUp hash st s cs inp
               = (Inr (), st', \<lparr>userID = Some (next_user_id st), session_type = Some FULL\<rparr>, cs') \<and>
             organizations st' = organizations st @
               [\<lparr>org_id = next_organization_id st, org_name = ''Personal'', isPersonal = True,
                 org_username = in_username inp\<rparr>] \<and>
             users st' = users st @ [u] \<and> user_id u = next_user_id st \<and>
             memberships st' = memberships st @
               [\<lparr>membership_id = next_membership_id st, membership_user = next_user_id st,
                 membership_organization = next_organization_id st, permission = ADMIN\<rparr>]))"
  by (simp add: signUp_def Organization_insert_def User_insert_def Membership_insert_def
        signIn_def setPassword_def Let_def)

text \<open>In the scenario, Carol's signup with a store that refuses the organization, the
  identity, the membership, and nothing.\<close>

theorem signUp_writes_in_sequence_witness:
  "signUp prefix_hash (demo\<lparr>rejects := (\<lambda>e. e = OrganizationE)\<rparr>) signed_out Map.empty carol_input
     = (Inl StoreFailure, demo\<lparr>rejects := (\<lambda>e. e = OrganizationE)\<rparr>, signed_out, Map.empty) \<and>
   fst (signUp prefix_hash (demo\<lparr>rejects := (\<lambda>e. e = UserE)\<rparr>) signed_out Map.empty carol_input)
     = Inl StoreFailure \<and>
   organizations (fst (snd (signUp prefix_hash (demo\<lparr>rejects := (\<lambda>e. e = UserE)\<rparr>)
       signed_out Map.empty carol_input)))
     = organizations demo @ [carol_org] \<and>
   fst (signUp prefix_hash (demo\<lparr>rejects := (\<lambda>e. e = MembershipE)\<rparr>) signed_out Map.empty
       carol_input) = Inl StoreFailure \<and>
   users (fst (snd (signUp prefix_hash (demo\<lparr>rejects := (\<lambda>e. e = MembershipE)\<rparr>)
       signed_out Map.empty carol_input)))
     = [alice, bob, carol] \<and>
   fst (signUp prefix_hash demo signed_out Map.empty carol_input) = Inr () \<and>
   memberships (fst (snd (signUp prefix_hash demo signed_out Map.empty carol_input)))
     = memberships demo @
         [\<lparr>membership_id = 3, membership_user = 3, membership_organization = 3,
           permission = ADMIN\<rparr>] \<and>
   fst (snd (snd (signUp prefix_hash demo signed_out Map.empty carol_input)))
     = \<lparr>userID = Some 3, session_type = Some FULL\<rparr>"
proof -
  have org: "signUp prefix_hash (demo\<lparr>rejects := (\<lambda>e. e = OrganizationE)\<rparr>) signed_out
               Map.empty carol_input
             = (Inl StoreFailure, demo\<lparr>rejects := (\<lambda>e. e = OrganizationE)\<rparr>, signed_out,
                Map.empty)"
    using signUp_writes_in_sequence [of "demo\<lparr>rejects := (\<lambda>e. e = OrganizationE)\<rparr>"
      prefix_hash signed_out Map.empty carol_input]
    by simp
  have usr: "fst (signUp prefix_hash (demo\<lparr>rejects := (\<lambda>e. e = UserE)\<rparr>) signed_out Map.empty
               carol_input) = Inl StoreFailure"
    and usr_org: "organizations (fst (snd (signUp prefix_hash (demo\<lparr>rejects := (\<lambda>e. e = UserE)\<rparr>)
               signed_out Map.empty carol_input))) = organizations demo @ [carol_org]"
    using signUp_writes_in_sequence [of "demo\<lparr>rejects := (\<lambda>e. e = UserE)\<rparr>"
      prefix_hash signed_out Map.empty carol_input]
    by (auto simp: demo_def carol_input_def carol_org_def)
  have mem: "fst (signUp prefix_hash (demo\<lparr>rejects := (\<lambda>e. e = MembershipE)\<rparr>) signed_out
               Map.empty carol_input) = Inl StoreFailure"
    using signUp_writes_in_sequence [of "demo\<lparr>rejects := (\<lambda>e. e = MembershipE)\<rparr>"
      prefix_hash signed_out Map.empty carol_input]
    by auto
  have mem_users: "users (fst (snd (signUp prefix_hash (demo\<lparr>rejects := (\<lambda>e. e = MembershipE)\<rparr>)
               signed_out Map.empty carol_input))) = [alice, bob, carol]"
    by (simp add: signUp_def Organization_insert_def User_insert_def Membership_insert_def
          setPassword_def Let_def demo_def carol_input_def carol_def prefix_hash_def)
  have ok: "fst (signUp prefix_hash demo signed_out Map.empty carol_input) = Inr ()"
    and ok_mem: "memberships (fst (snd (signUp prefix_hash demo signed_out Map.empty carol_input)))
       = memberships demo @
           [\<lparr>membership_id = 3, membership_user = 3, membership_organization = 3,
             permission = ADMIN\<rparr>]"
    and ok_session: "fst (snd (snd (signUp prefix_hash demo signed_out Map.empty carol_input)))
       = \<lparr>userID = Some 3, session_type = Some FULL\<rparr>"
    using signUp_writes_in_sequence [of demo prefix_hash signed_out Map.empty carol_input]
    by (auto simp: demo_def)
  from org usr usr_org mem mem_users ok ok_mem ok_session show ?thesis by blast
qed

text \<open>Against C4 as stated: the membership's write is refused, the signup rejects, and
  Carol's identity and her organization, which were not there before, are in the store.\<close>

theorem signUp_leaves_rows_behind:
  "fst (signUp prefix_hash (demo\<lparr>rejects := (\<lambda>e. e = MembershipE)\<rparr>) signed_out Map.empty
       carol_input) = Inl StoreFailure \<and>
   users (fst (snd (signUp prefix_hash (demo\<lparr>rejects := (\<lambda>e. e = MembershipE)\<rparr>)
       signed_out Map.empty carol_input))) = [alice, bob, carol] \<and>
   organizations (fst (snd (signUp prefix_hash (demo\<lparr>rejects := (\<lambda>e. e = MembershipE)\<rparr>)
       signed_out Map.empty carol_input))) = organizations demo @ [carol_org] \<and>
   carol \<notin> set (users demo) \<and> carol_org \<notin> set (organizations demo)"
  by (simp add: signUp_def Organization_insert_def User_insert_def Membership_insert_def
        setPassword_def Let_def demo_def carol_input_def carol_def carol_org_def alice_def
        bob_def prefix_hash_def)

section \<open>Secrets\<close>

text \<open>
  Claim C6. \<open>editSecret\<close> and \<open>deleteSecret\<close> look the secret up by its id and the
  id of the container group together. When no secret with the given id belongs to the
  given container group, both reject with \<open>EntityNotFound\<close> and the store is as it
  was: no secret is modified or deleted.
\<close>

theorem secret_lookup_scoped:
  assumes "\<forall>x \<in> set (secrets st). secret_id x = i \<longrightarrow> secret_containerGroup x \<noteq> containerGroupID"
  shows "editSecret st m containerGroupID i k v = (Inl EntityNotFound, st) \<and>
         deleteSecret st m containerGroupID i = (Inl EntityNotFound, st)"
proof -
  have "find (\<lambda>x. secret_id x = i \<and> secret_containerGroup x = containerGroupID) (secrets st)
        = None"
    using assms by (auto simp: find_None_iff)
  then show ?thesis
    by (simp add: editSecret_def deleteSecret_def Secret_findOneOrFail_def)
qed

text \<open>In the scenario: the secret \<open>1\<close> belongs to Alice's container group \<open>1\<close>;
  addressed through Bob's container group \<open>2\<close>, which exists, it is not found.\<close>

theorem secret_lookup_scoped_witness:
  "db_url \<in> set (secrets demo) \<and> secret_id db_url = 1 \<and> secret_containerGroup db_url = 1 \<and>
   posts_group \<in> set (containerGroups demo) \<and> containerGroup_id posts_group = 2 \<and>
   editSecret demo \<lparr>application = blog\<rparr> 2 1 ''DB_URL'' ''stolen'' = (Inl EntityNotFound, demo) \<and>
   deleteSecret demo \<lparr>application = blog\<rparr> 2 1 = (Inl EntityNotFound, demo)"
  using secret_lookup_scoped [of demo 1 2 "\<lparr>application = blog\<rparr>" "''DB_URL''" "''stolen''"]
  by (simp add: demo_def db_url_def posts_group_def)

text \<open>\<open>addSecret\<close> does not read the application the gate has checked.\<close>

lemma addSecret_ignores_application:
  "addSecret st m containerGroupID k v = addSecret st m' containerGroupID k v"
  by (simp add: addSecret_def)

text \<open>
  Claim C1. The gate \<open>application\<close> checks the caller's permission on the organization
  of the application named by \<open>id\<close>; \<open>addSecret\<close> then loads the container group by
  its id alone. Bob has no membership on Alice's organization, which owns the container
  group \<open>1\<close>; through his own application \<open>2\<close> his \<open>addSecret\<close> to that group
  succeeds and the secret is stored.
\<close>

theorem addSecret_unscoped_group:
  "application_addSecret demo bob 2 1 ''DB_URL'' ''mine''
     = (Inr \<lparr>secret_id = 2, secret_key = ''DB_URL'', secret_value = ''mine'',
             secret_containerGroup = 1\<rparr>,
        demo\<lparr>secrets := [db_url, \<lparr>secret_id = 2, secret_key = ''DB_URL'',
                                   secret_value = ''mine'', secret_containerGroup = 1\<rparr>],
             next_secret_id := 3\<rparr>) \<and>
   ContainerGroup_findOneOrFail demo 1 = Inr api_group \<and>
   containerGroup_organization api_group = 1 \<and>
   find (\<lambda>m. membership_user m = user_id bob \<and> membership_organization m = 1)
     (memberships demo) = None"
  by (simp add: application_addSecret_def ApplicationMutationsResolver_application_def
        Application_findOneOrFail_def userHasPermission_def addSecret_def
        ContainerGroup_findOneOrFail_def Secret_insert_def Let_def
        demo_def bob_def web_def blog_def api_group_def posts_group_def db_url_def)

section \<open>Deleting an application\<close>

text \<open>Whatever the store, \<open>delete\<close> leaves the components, the container groups
  and the secrets as they are.\<close>

lemma delete_touches_applications_only:
  "components (snd (delete st m)) = components st \<and>
   containerGroups (snd (delete st m)) = containerGroups st \<and>
   secrets (snd (delete st m)) = secrets st"
  by (simp add: delete_def Application_delete_def)

text \<open>
  Claim C2. \<open>delete\<close> removes the application's row and nothing else. The application
  \<open>web\<close> has one component, one container group and one secret beneath it; after the
  delete the three are still in the store.
\<close>

theorem delete_leaves_descendants:
  "delete demo \<lparr>application = web\<rparr> = (Inr web, demo\<lparr>applications := [blog]\<rparr>) \<and>
   components (snd (delete demo \<lparr>application = web\<rparr>)) = [api, posts] \<and>
   component_application api = app_id web \<and>
   containerGroups (snd (delete demo \<lparr>application = web\<rparr>)) = [api_group, posts_group] \<and>
   containerGroup_component api_group = component_id api \<and>
   secrets (snd (delete demo \<lparr>application = web\<rparr>)) = [db_url] \<and>
   secret_containerGroup db_url = containerGroup_id api_group"
  by (simp add: delete_def Application_delete_def delete_row_def demo_def web_def blog_def
        api_def api_group_def db_url_def)

section \<open>Updates\<close>

text \<open>
  \<open>update\<close> changes the name and the description of the application only when the
  input gives a value: a field that is left out or \<open>null\<close> keeps its value, and the
  id and the organization are never changed.
\<close>

lemma update_partial:
  assumes "fst (update st m inp) = Inr a"
  shows "app_name a = (case ai_name inp of Given v \<Rightarrow> v | Omitted \<Rightarrow> app_name (application m)
                        | Null \<Rightarrow> app_name (application m)) \<and>
         app_description a =
           (case ai_description inp of Given v \<Rightarrow> v | Omitted \<Rightarrow> app_description (application m)
            | Null \<Rightarrow> app_description (application m)) \<and>
         app_id a = app_id (application m) \<and>
         app_organization a = app_organization (application m)"
  using assms
  by (cases "ai_name inp"; cases "ai_description inp")
     (auto simp: update_def Application_save_def Let_def split: if_splits)

text \<open>\<open>updateComponent\<close> leaves a field that the input leaves out as it is.\<close>

lemma updateComponent_omitted:
  assumes "fst (updateComponent st m i inp) = Inr c"
      and "Component_findByApplicationAndId st (application m) i = Inr c0"
  shows "(ci_name inp = Omitted \<longrightarrow> component_name c = component_name c0) \<and>
         (ci_image inp = Omitted \<longrightarrow> image c = image c0) \<and>
         (ci_deploymentStrategy inp = Omitted \<longrightarrow> deploymentStrategy c = deploymentStrategy c0)"
  using assms
  by (auto simp: updateComponent_def Component_save_def Let_def split: if_splits)

text \<open>A name that is present and \<open>null\<close> is assigned: when the store refuses the
  write the whole update rejects, and when it accepts it the stored name is \<open>null\<close>.\<close>

lemma updateComponent_null_name:
  assumes "Component_findByApplicationAndId st (application m) i = Inr c0"
      and "ci_name inp = Null"
  shows "(rejects st ComponentE \<longrightarrow> updateComponent st m i inp = (Inl StoreFailure, st)) \<and>
         (\<not> rejects st ComponentE \<longrightarrow>
            (\<exists>c. fst (updateComponent st m i inp) = Inr c \<and> component_name c = None \<and>
                 find (\<lambda>x. component_id x = i) (components (snd (updateComponent st m i inp)))
                   = Some c))"
proof -
  have i: "component_id c0 = i"
    using assms(1)
    by (auto simp: Component_findByApplicationAndId_def split: option.splits
             dest: find_Some_holds)
  let ?c = "c0\<lparr>component_name := None,
                 image := assign_if_present (ci_image inp) (image c0),
                 deploymentStrategy :=
                   assign_if_present (ci_deploymentStrategy inp) (deploymentStrategy c0)\<rparr>"
  have "find (\<lambda>x. component_id x = component_id ?c) (replace_row component_id ?c (components st))
        = Some ?c"
    by (rule find_replace_row)
  with i assms show ?thesis
    by (simp add: updateComponent_def Component_save_def Let_def)
qed

text \<open>
  Claim C7. \<open>updateComponent\<close> tests \<open>'name' in componentInput\<close>, which holds for
  a field that is present with the value \<open>null\<close>: the component \<open>api\<close> is updated
  with \<open>name: null\<close> and nothing else, and its name, which was \<open>api\<close>, is
  \<open>null\<close> in the returned entity and in the store.
\<close>

theorem updateComponent_assigns_null:
  "updateComponent demo \<lparr>application = web\<rparr> 1
       \<lparr>ci_name = Null, ci_image = Omitted, ci_deploymentStrategy = Omitted\<rparr>
     = (Inr (api\<lparr>component_name := None\<rparr>),
        demo\<lparr>components := [api\<lparr>component_name := None\<rparr>, posts]\<rparr>) \<and>
   component_name api = Some ''api''"
  by (simp add: updateComponent_def Component_findByApplicationAndId_def Component_save_def
        replace_row_def Let_def demo_def web_def api_def posts_def)

section \<open>Passwords\<close>

text \<open>
  \<open>setPassword\<close> stores what the library's \<open>hash\<close> returns for the password and
  \<open>SALT_ROUNDS\<close>, and \<open>checkPassword\<close> is the library's \<open>compare\<close> of the
  candidate with the stored hash.
\<close>

lemma checkPassword_setPassword:
  "checkPassword compare (setPassword hash u password) candidate
     = Inr (compare candidate (hash password 10))"
  by (simp add: checkPassword_def setPassword_def bcrypt_compare_def SALT_ROUNDS_def)

end
